theory Spec2Isabelle
  imports Main
begin

section \<open>Strings\<close>

text \<open>
  A script or query is a \<^typ>\<open>string\<close>: the list of its code units, each held in a
  \<^typ>\<open>char\<close>, which covers the code units below 256. The three string operations the
  server relies on (\<open>trim\<close>, \<open>toLowerCase\<close>, \<open>startsWith\<close>/\<open>str_includes\<close>) are written out
  for that range.
\<close>

definition is_space :: "char \<Rightarrow> bool" where
  \<comment> \<open>white space and line terminators removed by \<open>String.prototype.trim\<close>\<close>
  "is_space c = (c = CHR 0x09 \<or> c = CHR 0x0A \<or> c = CHR 0x0B \<or> c = CHR 0x0C
      \<or> c = CHR 0x0D \<or> c = CHR 0x20 \<or> c = CHR 0xA0)"

definition trim :: "string \<Rightarrow> string" where
  "trim s = rev (dropWhile is_space (rev (dropWhile is_space s)))"

definition lower_char :: "char \<Rightarrow> char" where
  "lower_char c =
     (let n = (of_char c :: nat)
      in if (65 \<le> n \<and> n \<le> 90) \<or> (192 \<le> n \<and> n \<le> 222 \<and> n \<noteq> 215)
         then char_of (n + 32) else c)"

definition toLowerCase :: "string \<Rightarrow> string" where
  "toLowerCase s = map lower_char s"

definition startsWith :: "string \<Rightarrow> string \<Rightarrow> bool" where
  "startsWith s p = (take (length p) s = p)"

fun str_includes :: "string \<Rightarrow> string \<Rightarrow> bool" where
  "str_includes [] p = (p = [])"
| "str_includes (c # cs) p = (startsWith (c # cs) p \<or> str_includes cs p)"

section \<open>Statement scanner of \<open>runMigrations\<close>\<close>

text \<open>
  The scanner walks the script one character at a time and keeps five variables. One
  pass of the loop body is \<open>scan_char\<close>: it receives the character at index \<open>i\<close> and
  the text after it, and returns the text that is left once the loop's own \<open>i++\<close> has
  happened, together with the updated variables.
\<close>

record scanner =
  statements :: "string list"
  currentStatement :: string
  inComment :: bool
  inString :: bool
  stringDelimiter :: string

definition scanner_init :: scanner where
  "scanner_init = \<lparr>statements = [], currentStatement = [], inComment = False,
     inString = False, stringDelimiter = []\<rparr>"

definition is_quote :: "char \<Rightarrow> bool" where
  "is_quote c = (c = CHR 0x27 \<or> c = CHR 0x22 \<or> c = CHR 0x60)"

definition handle_literal :: "char \<Rightarrow> scanner \<Rightarrow> scanner" where
  \<comment> \<open>the block under "Handle string literals"\<close>
  "handle_literal c s =
     (if \<not> inComment s \<and> is_quote c then
        (if \<not> inString s then s\<lparr>inString := True, stringDelimiter := [c]\<rparr>
         else if [c] = stringDelimiter s then s\<lparr>inString := False\<rparr>
         else s)
      else s)"

definition close_statement :: "scanner \<Rightarrow> scanner" where
  \<comment> \<open>the body of the "statement termination" test\<close>
  "close_statement s =
     (let trimmedStatement = trim (currentStatement s)
      in s\<lparr>statements := (if length trimmedStatement > 0
                            then statements s @ [trimmedStatement] else statements s),
            currentStatement := []\<rparr>)"

definition append_char :: "char \<Rightarrow> string \<Rightarrow> scanner \<Rightarrow> string \<times> scanner" where
  \<comment> \<open>the tail of the loop body, from "If we're in a comment" on\<close>
  "append_char c cs s =
     (if inComment s then (cs, s)
      else let s' = s\<lparr>currentStatement := currentStatement s @ [c]\<rparr>
           in if c = CHR '';'' \<and> \<not> inString s' then (cs, close_statement s') else (cs, s'))"

definition scan_char :: "char \<Rightarrow> string \<Rightarrow> scanner \<Rightarrow> string \<times> scanner" where
  "scan_char c cs s0 =
     (let nextChar = take 1 cs;
          s = handle_literal c s0
      in if \<not> inString s then
           (if c = CHR ''/'' \<and> nextChar = ''*'' \<and> \<not> inComment s
              then (drop 1 cs, s\<lparr>inComment := True\<rparr>)
            else if c = CHR ''*'' \<and> nextChar = ''/'' \<and> inComment s
              then (drop 1 cs, s\<lparr>inComment := False\<rparr>)
            else if c = CHR ''-'' \<and> nextChar = ''-'' \<and> \<not> inComment s
              then (drop 1 (dropWhile (\<lambda>x. x \<noteq> CHR 0x0A) (c # cs)), s)
            else append_char c cs s)
         else append_char c cs s)"

lemma scan_char_shorter: "length (fst (scan_char c cs s)) \<le> length cs"
proof -
  have "length (dropWhile (\<lambda>x. x \<noteq> CHR 0x0A) (c # cs)) \<le> Suc (length cs)"
    using length_dropWhile_le [of "\<lambda>x. x \<noteq> CHR 0x0A" "c # cs"] by simp
  then show ?thesis
    by (auto simp: scan_char_def append_char_def Let_def)
qed

function scan :: "string \<Rightarrow> scanner \<Rightarrow> scanner" where
  "scan [] s = s"
| "scan (c # cs) s = scan (fst (scan_char c cs s)) (snd (scan_char c cs s))"
  by pat_completeness auto
termination
proof (relation "measure (\<lambda>(cs, s). length cs)")
  show "wf (measure (\<lambda>(cs, s). length cs))" by simp
next
  fix c cs s
  show "((fst (scan_char c cs s), snd (scan_char c cs s)), (c # cs, s))
          \<in> measure (\<lambda>(cs, s). length cs)"
    using scan_char_shorter [of c cs s] by (simp add: case_prod_beta)
qed

definition tokenize :: "string \<Rightarrow> string list" where
  \<comment> \<open>the loop, then "Add the last statement if it doesn't end with a semicolon"\<close>
  "tokenize setupSql =
     (let s = scan setupSql scanner_init;
          trimmedLastStatement = trim (currentStatement s)
      in if length trimmedLastStatement > 0
         then statements s @ [trimmedLastStatement] else statements s)"

definition skip_statement :: "string \<Rightarrow> bool" where
  \<comment> \<open>the test guarding \<open>continue\<close> in the execution loop\<close>
  "skip_statement statement =
     (str_includes (toLowerCase statement) ''create database''
      \<or> str_includes (toLowerCase statement) ''use '')"

fun closes :: "string \<Rightarrow> bool" where
  \<comment> \<open>the text holds the two characters that end a block comment, side by side\<close>
  "closes [] = False"
| "closes [a] = False"
| "closes (a # b # cs) = ((a = CHR ''*'' \<and> b = CHR ''/'') \<or> closes (b # cs))"

section \<open>JSON values and JavaScript conversions\<close>

text \<open>
  Requests, arguments and database rows are untyped in the source (\<open>any\<close>), so they are
  JSON values here. \<open>undefined\<close> is not a JSON value: a value that may be missing is a
  \<open>json option\<close> with \<open>None\<close> for \<open>undefined\<close>. Numbers are held as integers.
\<close>

datatype json =
    JNull
  | JBool bool
  | JNum int
  | JStr string
  | JArr "json list"
  | JObj "(string \<times> json) list"

type_synonym jsval = "json option"

datatype ErrorCode = ParseError | InvalidRequest | MethodNotFound | InvalidParams | InternalError

fun code_number :: "ErrorCode \<Rightarrow> int" where
  "code_number ParseError = - 32700"
| "code_number InvalidRequest = - 32600"
| "code_number MethodNotFound = - 32601"
| "code_number InvalidParams = - 32602"
| "code_number InternalError = - 32603"

datatype thrown =
    McpError ErrorCode string
  | JsError string  \<comment> \<open>any other \<open>Error\<close>: a \<open>TypeError\<close> of the runtime, a gateway rejection\<close>

fun message :: "thrown \<Rightarrow> string" where
  "message (McpError c m) = m"
| "message (JsError m) = m"

fun field :: "json \<Rightarrow> string \<Rightarrow> jsval" where
  \<comment> \<open>\<open>v.k\<close> for a value that is neither \<open>null\<close> nor \<open>undefined\<close>, and a key that no
     built-in prototype defines\<close>
  "field (JObj kvs) k = map_of kvs k"
| "field v k = None"

definition quoted :: "string \<Rightarrow> string" where
  "quoted k = [CHR 0x27] @ k @ [CHR 0x27]"

definition cannot_read :: "string \<Rightarrow> string \<Rightarrow> string" where
  \<comment> \<open>the message of the \<open>TypeError\<close> the V8 runtime raises on \<open>null.k\<close> and \<open>undefined.k\<close>\<close>
  "cannot_read v k = ''Cannot read properties of '' @ v @ '' (reading '' @ quoted k @ '')''"

definition get_prop :: "jsval \<Rightarrow> string \<Rightarrow> thrown + jsval" where
  \<comment> \<open>\<open>v.k\<close>\<close>
  "get_prop v k =
     (case v of
        None \<Rightarrow> Inl (JsError (cannot_read ''undefined'' k))
      | Some JNull \<Rightarrow> Inl (JsError (cannot_read ''null'' k))
      | Some j \<Rightarrow> Inr (field j k))"

definition destructure :: "jsval \<Rightarrow> string \<Rightarrow> thrown + jsval" where
  \<comment> \<open>\<open>const { k } = request.params.arguments\<close>\<close>
  "destructure v k =
     (case v of
        None \<Rightarrow> Inl (JsError (''Cannot destructure property '' @ quoted k @ '' of ''
                  @ quoted ''request.params.arguments'' @ '' as it is undefined.''))
      | Some JNull \<Rightarrow> Inl (JsError (''Cannot destructure property '' @ quoted k @ '' of ''
                  @ quoted ''request.params.arguments'' @ '' as it is null.''))
      | Some j \<Rightarrow> Inr (field j k))"

fun truthy :: "jsval \<Rightarrow> bool" where
  "truthy None = False"
| "truthy (Some JNull) = False"
| "truthy (Some (JBool b)) = b"
| "truthy (Some (JNum n)) = (n \<noteq> 0)"
| "truthy (Some (JStr s)) = (s \<noteq> [])"
| "truthy (Some (JArr xs)) = True"
| "truthy (Some (JObj kvs)) = True"

fun typeof :: "jsval \<Rightarrow> string" where
  "typeof None = ''undefined''"
| "typeof (Some JNull) = ''object''"
| "typeof (Some (JBool b)) = ''boolean''"
| "typeof (Some (JNum n)) = ''number''"
| "typeof (Some (JStr s)) = ''string''"
| "typeof (Some (JArr xs)) = ''object''"
| "typeof (Some (JObj kvs)) = ''object''"

fun str_of :: "jsval \<Rightarrow> string" where
  \<comment> \<open>the characters of a value already known to be a string\<close>
  "str_of (Some (JStr s)) = s"
| "str_of v = []"

definition digit :: "nat \<Rightarrow> char" where
  "digit n = char_of (48 + n)"

fun show_nat :: "nat \<Rightarrow> string" where
  "show_nat n = (if n < 10 then [digit n] else show_nat (n div 10) @ [digit (n mod 10)])"

definition show_int :: "int \<Rightarrow> string" where
  "show_int i = (if i < 0 then ''-'' @ show_nat (nat (- i)) else show_nat (nat i))"

fun join :: "string list \<Rightarrow> string" where
  \<comment> \<open>\<open>Array.prototype.join\<close> with its default separator\<close>
  "join [] = []"
| "join [x] = x"
| "join (x # y # ys) = x @ '','' @ join (y # ys)"

fun to_string :: "json \<Rightarrow> string" where
  \<comment> \<open>the conversion a template literal applies to an interpolated value\<close>
  "to_string JNull = ''null''"
| "to_string (JBool b) = (if b then ''true'' else ''false'')"
| "to_string (JNum n) = show_int n"
| "to_string (JStr s) = s"
| "to_string (JArr xs) = join (map (\<lambda>x. if x = JNull then [] else to_string x) xs)"
| "to_string (JObj kvs) = ''[object Object]''"

definition template :: "jsval \<Rightarrow> string" where
  "template v = (case v of None \<Rightarrow> ''undefined'' | Some j \<Rightarrow> to_string j)"


section \<open>Query validator\<close>

datatype expectedType = Select | Write | CreateTable

definition validateSqlQuery :: "jsval \<Rightarrow> expectedType \<Rightarrow> thrown + unit" where
  "validateSqlQuery query expected =
     (if \<not> truthy query \<or> typeof query \<noteq> ''string'' then
        Inl (McpError InvalidParams ''Query must be a non-empty string'')
      else
        let trimmedQuery = toLowerCase (trim (str_of query)) in
        (case expected of
           Select \<Rightarrow>
             if \<not> startsWith trimmedQuery ''select'' then
               Inl (McpError InvalidParams ''Only SELECT queries are allowed with read_query'')
             else if str_includes trimmedQuery ''drop '' \<or>
                     str_includes trimmedQuery ''delete '' \<or>
                     str_includes trimmedQuery ''update '' \<or>
                     str_includes trimmedQuery ''insert '' \<or>
                     str_includes trimmedQuery ''alter '' \<or>
                     str_includes trimmedQuery ''create '' then
               Inl (McpError InvalidParams
                 (''The query contains potentially harmful operations. '' @
                  ''Only SELECT statements are allowed with read_query.''))
             else Inr ()
         | Write \<Rightarrow>
             if startsWith trimmedQuery ''select'' then
               Inl (McpError InvalidParams
                 ''SELECT queries are not allowed with write_query, use read_query instead'')
             else if \<not> startsWith trimmedQuery ''insert '' \<and>
                     \<not> startsWith trimmedQuery ''update '' \<and>
                     \<not> startsWith trimmedQuery ''delete '' then
               Inl (McpError InvalidParams
                 ''Only INSERT, UPDATE, and DELETE operations are allowed with write_query'')
             else if str_includes trimmedQuery ''drop '' \<or>
                     str_includes trimmedQuery ''alter '' \<or>
                     str_includes trimmedQuery ''create '' then
               Inl (McpError InvalidParams
                 (''The query contains potentially harmful operations. '' @
                  ''Only INSERT, UPDATE, and DELETE are allowed with write_query.''))
             else Inr ()
         | CreateTable \<Rightarrow>
             if \<not> startsWith trimmedQuery ''create table'' then
               Inl (McpError InvalidParams
                 ''Only CREATE TABLE statements are allowed with create_table'')
             else Inr ()))"

text \<open>The table of the specification, read row by row, for comparison with the code.\<close>

fun intent_rule :: "expectedType \<Rightarrow> string \<Rightarrow> bool" where
  "intent_rule Select t =
     (startsWith t ''select'' \<and>
      \<not> str_includes t ''drop '' \<and> \<not> str_includes t ''delete '' \<and>
      \<not> str_includes t ''update '' \<and> \<not> str_includes t ''insert '' \<and>
      \<not> str_includes t ''alter '' \<and> \<not> str_includes t ''create '')"
| "intent_rule Write t =
     ((startsWith t ''insert '' \<or> startsWith t ''update '' \<or> startsWith t ''delete '') \<and>
      \<not> startsWith t ''select'' \<and>
      \<not> str_includes t ''drop '' \<and> \<not> str_includes t ''alter '' \<and>
      \<not> str_includes t ''create '')"
| "intent_rule CreateTable t = startsWith t ''create table''"

section \<open>Server state and collaborators\<close>

record Insight =
  insight_id :: nat
  content :: jsval
  timestamp :: string  \<comment> \<open>the \<open>Date\<close>, held as its \<open>toISOString\<close> rendering\<close>

record McpRequest =
  req_jsonrpc :: jsval
  req_id :: jsval
  req_method :: jsval
  req_params :: jsval

record McpResponse =
  jsonrpc :: string
  resp_id :: jsval
  resp_result :: jsval
  resp_error :: "(ErrorCode \<times> string) option"

text \<open>
  The two fields of the server object, together with the database behind the connection
  pool and a log of every statement handed to \<open>pool.query\<close>, in order.
\<close>

record 'db server =
  insights :: "Insight list"
  insightCounter :: nat
  db :: 'db
  queries :: "(string \<times> jsval list) list"

definition server_init :: "'db \<Rightarrow> 'db server" where
  "server_init d = \<lparr>insights = [], insightCounter = 0, db = d, queries = []\<rparr>"

text \<open>
  What the server takes from outside: the configured schema name, the gateway
  (\<open>pool.query\<close>: a statement and its placeholder values, answering with the rejection's
  message or with the first component of the resolved pair), \<open>JSON.parse\<close>,
  \<open>JSON.stringify\<close> with two-space indentation, and the clock.
\<close>

record 'db env =
  database :: string
  pool_query :: "string \<Rightarrow> jsval list \<Rightarrow> 'db \<Rightarrow> (string + json) \<times> 'db"
  json_parse :: "string \<Rightarrow> string + json"
  json_stringify :: "json \<Rightarrow> string"
  clock :: string

definition run_query ::
  "'db env \<Rightarrow> string \<Rightarrow> jsval list \<Rightarrow> 'db server \<Rightarrow> (string + json) \<times> 'db server" where
  "run_query env sql vals st =
     (let r = pool_query env sql vals (db st)
      in (fst r, st\<lparr>db := snd r, queries := queries st @ [(sql, vals)]\<rparr>))"

section \<open>Startup migration\<close>

fun execute_statements :: "'db env \<Rightarrow> string list \<Rightarrow> 'db server \<Rightarrow> 'db server" where
  "execute_statements env [] st = st"
| "execute_statements env (statement # rest) st =
     (if skip_statement statement then execute_statements env rest st
      else execute_statements env rest (snd (run_query env statement [] st)))"

definition runMigrations :: "'db env \<Rightarrow> string option \<Rightarrow> 'db server \<Rightarrow> 'db server" where
  \<comment> \<open>\<open>None\<close>: the migration file does not exist\<close>
  "runMigrations env setupFile st =
     (case setupFile of
        None \<Rightarrow> st
      | Some setupSql \<Rightarrow> execute_statements env (tokenize setupSql) st)"


section \<open>Tool dispatcher\<close>

definition text_content :: "string \<Rightarrow> json" where
  "text_content txt = JArr [JObj [(''type'', JStr ''text''), (''text'', JStr txt)]]"

definition tool_result :: "jsval \<Rightarrow> string \<Rightarrow> McpResponse" where
  "tool_result i txt =
     \<lparr>jsonrpc = ''2.0'', resp_id = i,
      resp_result = Some (JObj [(''content'', text_content txt)]), resp_error = None\<rparr>"

definition tool_failure :: "jsval \<Rightarrow> string \<Rightarrow> McpResponse" where
  \<comment> \<open>the envelope built by the \<open>catch\<close> block of \<open>handleToolCall\<close>\<close>
  "tool_failure i msg =
     \<lparr>jsonrpc = ''2.0'', resp_id = i,
      resp_result = Some (JObj [(''content'', text_content (''Error: '' @ msg)),
                                (''isError'', JBool True)]),
      resp_error = None\<rparr>"

definition invalid_arguments :: thrown where
  "invalid_arguments = McpError InvalidParams
     (''Invalid arguments: Expected an object with a '' @ [CHR 0x22] @ ''query''
      @ [CHR 0x22] @ '' property'')"

definition database_error :: "string \<Rightarrow> thrown" where
  "database_error msg = McpError InternalError (''Database error: '' @ msg)"

definition without_undefined :: "(string \<times> jsval) list \<Rightarrow> json" where
  \<comment> \<open>an object literal as \<open>JSON.stringify\<close> sees it: keys bound to \<open>undefined\<close> are left out\<close>
  "without_undefined kvs = JObj (concat (map (\<lambda>(k, v). case v of None \<Rightarrow> [] | Some j \<Rightarrow> [(k, j)]) kvs))"

definition null_if_undefined :: "jsval \<Rightarrow> json" where
  \<comment> \<open>an array element as \<open>JSON.stringify\<close> sees it\<close>
  "null_if_undefined v = (case v of None \<Rightarrow> JNull | Some j \<Rightarrow> j)"

definition read_query :: "'db env \<Rightarrow> McpRequest \<Rightarrow> jsval \<Rightarrow> 'db server
    \<Rightarrow> (thrown + McpResponse) \<times> 'db server" where
  "read_query env request arguments st =
     (if \<not> truthy arguments \<or> typeof arguments \<noteq> ''object'' then (Inl invalid_arguments, st)
      else case destructure arguments ''query'' of
        Inl e \<Rightarrow> (Inl e, st)
      | Inr query \<Rightarrow>
         (case validateSqlQuery query Select of
            Inl e \<Rightarrow> (Inl e, st)
          | Inr u \<Rightarrow>
             (case run_query env (str_of query) [] st of
                (Inl msg, st') \<Rightarrow> (Inl (database_error msg), st')
              | (Inr rows, st') \<Rightarrow>
                  (Inr (tool_result (req_id request) (json_stringify env rows)), st'))))"

definition write_query :: "'db env \<Rightarrow> McpRequest \<Rightarrow> jsval \<Rightarrow> 'db server
    \<Rightarrow> (thrown + McpResponse) \<times> 'db server" where
  "write_query env request arguments st =
     (if \<not> truthy arguments \<or> typeof arguments \<noteq> ''object'' then (Inl invalid_arguments, st)
      else case destructure arguments ''query'' of
        Inl e \<Rightarrow> (Inl e, st)
      | Inr query \<Rightarrow>
         (case validateSqlQuery query Write of
            Inl e \<Rightarrow> (Inl e, st)
          | Inr u \<Rightarrow>
             (case run_query env (str_of query) [] st of
                (Inl msg, st') \<Rightarrow> (Inl (database_error msg), st')
              | (Inr result, st') \<Rightarrow>
                  (case get_prop (Some result) ''affectedRows'' of
                     Inl e \<Rightarrow> (Inl (database_error (message e)), st')
                   | Inr affectedRows \<Rightarrow>
                       (Inr (tool_result (req_id request)
                          (json_stringify env
                             (without_undefined [(''affected_rows'', affectedRows)]))), st')))))"

definition create_table :: "'db env \<Rightarrow> McpRequest \<Rightarrow> jsval \<Rightarrow> 'db server
    \<Rightarrow> (thrown + McpResponse) \<times> 'db server" where
  "create_table env request arguments st =
     (if \<not> truthy arguments \<or> typeof arguments \<noteq> ''object'' then (Inl invalid_arguments, st)
      else case destructure arguments ''query'' of
        Inl e \<Rightarrow> (Inl e, st)
      | Inr query \<Rightarrow>
         (case validateSqlQuery query CreateTable of
            Inl e \<Rightarrow> (Inl e, st)
          | Inr u \<Rightarrow>
             (case run_query env (str_of query) [] st of
                (Inl msg, st') \<Rightarrow> (Inl (database_error msg), st')
              | (Inr ok, st') \<Rightarrow>
                  (Inr (tool_result (req_id request) ''Table created successfully''), st'))))"

definition list_tables_sql :: string where
  "list_tables_sql = ''SELECT table_name FROM information_schema.tables WHERE table_schema = ?''"

fun table_names :: "json list \<Rightarrow> thrown + jsval list" where
  \<comment> \<open>\<open>rows.map((row) => row.table_name || row.TABLE_NAME)\<close>\<close>
  "table_names [] = Inr []"
| "table_names (row # rows) =
     (case get_prop (Some row) ''table_name'' of
        Inl e \<Rightarrow> Inl e
      | Inr lower \<Rightarrow>
         (case table_names rows of
            Inl e \<Rightarrow> Inl e
          | Inr names \<Rightarrow>
              Inr ((if truthy lower then lower else field row ''TABLE_NAME'') # names)))"

definition list_tables :: "'db env \<Rightarrow> McpRequest \<Rightarrow> 'db server
    \<Rightarrow> (thrown + McpResponse) \<times> 'db server" where
  "list_tables env request st =
     (case run_query env list_tables_sql [Some (JStr (database env))] st of
        (Inl msg, st') \<Rightarrow> (Inl (JsError msg), st')
      | (Inr rows, st') \<Rightarrow>
         (case rows of
            JArr rs \<Rightarrow>
              (case table_names rs of
                 Inl e \<Rightarrow> (Inl e, st')
               | Inr tables \<Rightarrow>
                   (Inr (tool_result (req_id request)
                      (json_stringify env (JArr (map null_if_undefined tables)))), st'))
          | JNull \<Rightarrow> (Inl (JsError (cannot_read ''null'' ''map'')), st')
          | other \<Rightarrow> (Inl (JsError ''rows.map is not a function''), st')))"

definition describe_table_sql :: string where
  "describe_table_sql =
     ''SELECT column_name, data_type, is_nullable, column_default '' @
     ''FROM information_schema.columns '' @
     ''WHERE table_schema = ? AND table_name = ?''"

definition describe_table :: "'db env \<Rightarrow> McpRequest \<Rightarrow> jsval \<Rightarrow> 'db server
    \<Rightarrow> (thrown + McpResponse) \<times> 'db server" where
  "describe_table env request arguments st =
     (case destructure arguments ''table_name'' of
        Inl e \<Rightarrow> (Inl e, st)
      | Inr table_name \<Rightarrow>
         (case run_query env describe_table_sql [Some (JStr (database env)), table_name] st of
            (Inl msg, st') \<Rightarrow> (Inl (JsError msg), st')
          | (Inr rows, st') \<Rightarrow>
              (Inr (tool_result (req_id request) (json_stringify env rows)), st')))"

definition append_insight :: "'db env \<Rightarrow> McpRequest \<Rightarrow> jsval \<Rightarrow> 'db server
    \<Rightarrow> (thrown + McpResponse) \<times> 'db server" where
  "append_insight env request arguments st =
     (case destructure arguments ''insight'' of
        Inl e \<Rightarrow> (Inl e, st)
      | Inr insight \<Rightarrow>
         (let st1 = st\<lparr>insightCounter := insightCounter st + 1\<rparr>;
              newInsight = \<lparr>insight_id = insightCounter st1, content = insight,
                            timestamp = clock env\<rparr>;
              st2 = st1\<lparr>insights := insights st1 @ [newInsight]\<rparr>
          in (Inr (tool_result (req_id request)
                (''Insight #'' @ show_nat (insight_id newInsight) @ '' added to memo'')), st2)))"

definition tool_switch :: "'db env \<Rightarrow> McpRequest \<Rightarrow> 'db server
    \<Rightarrow> (thrown + McpResponse) \<times> 'db server" where
  \<comment> \<open>the \<open>try\<close> block of \<open>handleToolCall\<close>\<close>
  "tool_switch env request st =
     (case get_prop (req_params request) ''name'' of
        Inl e \<Rightarrow> (Inl e, st)
      | Inr name \<Rightarrow>
         (case get_prop (req_params request) ''arguments'' of
            Inl e \<Rightarrow> (Inl e, st)
          | Inr arguments \<Rightarrow>
             if name = Some (JStr ''read_query'') then read_query env request arguments st
             else if name = Some (JStr ''write_query'') then write_query env request arguments st
             else if name = Some (JStr ''create_table'') then create_table env request arguments st
             else if name = Some (JStr ''list_tables'') then list_tables env request st
             else if name = Some (JStr ''describe_table'') then
               describe_table env request arguments st
             else if name = Some (JStr ''append_insight'') then
               append_insight env request arguments st
             else (Inl (McpError MethodNotFound (''Unknown tool: '' @ template name)), st)))"

definition handleToolCall :: "'db env \<Rightarrow> McpRequest \<Rightarrow> 'db server
    \<Rightarrow> (thrown + McpResponse) \<times> 'db server" where
  "handleToolCall env request st =
     (case tool_switch env request st of
        (Inl (McpError c m), st') \<Rightarrow> (Inl (McpError c m), st')
      | (Inl (JsError m), st') \<Rightarrow> (Inr (tool_failure (req_id request) m), st')
      | (Inr response, st') \<Rightarrow> (Inr response, st'))"


section \<open>Request router\<close>

definition string_property :: "string \<Rightarrow> string \<Rightarrow> string \<times> json" where
  "string_property name description =
     (name, JObj [(''type'', JStr ''string''), (''description'', JStr description)])"

definition tools :: json where
  "tools = JArr [
     JObj [(''name'', JStr ''read_query''),
           (''description'', JStr ''Execute a SELECT query to read data from the database''),
           (''inputSchema'', JObj [(''type'', JStr ''object''),
              (''properties'', JObj [string_property ''query'' ''The SELECT SQL query to execute'']),
              (''required'', JArr [JStr ''query''])])],
     JObj [(''name'', JStr ''write_query''),
           (''description'', JStr ''Execute an INSERT, UPDATE, or DELETE query''),
           (''inputSchema'', JObj [(''type'', JStr ''object''),
              (''properties'', JObj [string_property ''query'' ''The SQL modification query'']),
              (''required'', JArr [JStr ''query''])])],
     JObj [(''name'', JStr ''create_table''),
           (''description'', JStr ''Create a new table in the database''),
           (''inputSchema'', JObj [(''type'', JStr ''object''),
              (''properties'', JObj [string_property ''query'' ''The CREATE TABLE SQL statement'']),
              (''required'', JArr [JStr ''query''])])],
     JObj [(''name'', JStr ''list_tables''),
           (''description'', JStr ''Get a list of all tables in the database''),
           (''inputSchema'', JObj [(''type'', JStr ''object''), (''properties'', JObj [])])],
     JObj [(''name'', JStr ''describe_table''),
           (''description'', JStr ''View schema information for a specific table''),
           (''inputSchema'', JObj [(''type'', JStr ''object''),
              (''properties'', JObj [string_property ''table_name'' ''Name of table to describe'']),
              (''required'', JArr [JStr ''table_name''])])],
     JObj [(''name'', JStr ''append_insight''),
           (''description'', JStr ''Add a new business insight to the memo''),
           (''inputSchema'', JObj [(''type'', JStr ''object''),
              (''properties'', JObj [string_property ''insight''
                  ''Business insight discovered from data analysis'']),
              (''required'', JArr [JStr ''insight''])])]]"

definition resources :: json where
  "resources = JArr [
     JObj [(''uri'', JStr ''memo://insights''),
           (''name'', JStr ''Business Insights Memo''),
           (''mimeType'', JStr ''text/plain''),
           (''description'', JStr (''A continuously updated memo of business insights '' @
                                   ''discovered during analysis''))]]"

definition render_insight :: "Insight \<Rightarrow> string" where
  \<comment> \<open>the three lines the \<open>forEach\<close> callback adds to the memo\<close>
  "render_insight insight =
     ''## Insight '' @ show_nat (insight_id insight) @ [CHR 0x0A] @
     ''*'' @ timestamp insight @ ''*'' @ [CHR 0x0A, CHR 0x0A] @
     template (content insight) @ [CHR 0x0A, CHR 0x0A]"

definition memo_header :: string where
  "memo_header = ''# Business Insights Memo'' @ [CHR 0x0A, CHR 0x0A]"

definition memoText :: "'db server \<Rightarrow> string" where
  "memoText st =
     memo_header @
     (if length (insights st) = 0 then ''No insights have been discovered yet.'' @ [CHR 0x0A]
      else concat (map render_insight (insights st)))"

definition success :: "jsval \<Rightarrow> json \<Rightarrow> McpResponse" where
  "success i payload =
     \<lparr>jsonrpc = ''2.0'', resp_id = i, resp_result = Some payload, resp_error = None\<rparr>"

definition failure :: "jsval \<Rightarrow> ErrorCode \<Rightarrow> string \<Rightarrow> McpResponse" where
  "failure i c m =
     \<lparr>jsonrpc = ''2.0'', resp_id = i, resp_result = None, resp_error = Some (c, m)\<rparr>"

definition method_switch :: "'db env \<Rightarrow> McpRequest \<Rightarrow> 'db server
    \<Rightarrow> (thrown + McpResponse) \<times> 'db server" where
  \<comment> \<open>the \<open>try\<close> block of \<open>handleRequest\<close>\<close>
  "method_switch env request st =
     (if req_method request = Some (JStr ''mcp.listTools'') then
        (Inr (success (req_id request) (JObj [(''tools'', tools)])), st)
      else if req_method request = Some (JStr ''mcp.listResources'') then
        (Inr (success (req_id request) (JObj [(''resources'', resources)])), st)
      else if req_method request = Some (JStr ''mcp.listResourceTemplates'') then
        (Inr (success (req_id request) (JObj [(''resourceTemplates'', JArr [])])), st)
      else if req_method request = Some (JStr ''mcp.readResource'') then
        (case get_prop (req_params request) ''uri'' of
           Inl e \<Rightarrow> (Inl e, st)
         | Inr uri \<Rightarrow>
            if uri = Some (JStr ''memo://insights'') then
              (Inr (success (req_id request)
                 (JObj [(''contents'', JArr [JObj [(''uri'', null_if_undefined uri),
                                                  (''mimeType'', JStr ''text/plain''),
                                                  (''text'', JStr (memoText st))]])])), st)
            else (Inl (McpError InvalidRequest (''Unknown resource: '' @ template uri)), st))
      else if req_method request = Some (JStr ''mcp.callTool'') then
        handleToolCall env request st
      else (Inl (McpError MethodNotFound (''Unknown method: '' @ template (req_method request))),
            st))"

definition as_request :: "json \<Rightarrow> McpRequest" where
  \<comment> \<open>the fields the handlers read from a parsed message that is not \<open>null\<close>\<close>
  "as_request v = \<lparr>req_jsonrpc = field v ''jsonrpc'', req_id = field v ''id'',
     req_method = field v ''method'', req_params = field v ''params''\<rparr>"

definition handleRequest :: "'db env \<Rightarrow> json \<Rightarrow> 'db server
    \<Rightarrow> (thrown + McpResponse) \<times> 'db server" where
  \<comment> \<open>On \<open>null\<close>, reading \<open>request.method\<close> throws inside the \<open>try\<close> block and reading
     \<open>request.id\<close> throws again inside the \<open>catch\<close> block, so the call itself fails.\<close>
  "handleRequest env request st =
     (if request = JNull then
        (Inl (JsError (cannot_read ''null'' ''id'')), st)
      else
        let envelope = as_request request in
        (case method_switch env envelope st of
           (Inl (McpError c m), st') \<Rightarrow> (Inr (failure (req_id envelope) c m), st')
         | (Inl (JsError m), st') \<Rightarrow> (Inr (failure (req_id envelope) InternalError m), st')
         | (Inr response, st') \<Rightarrow> (Inr response, st')))"

definition unknown_failure :: "string \<Rightarrow> McpResponse" where
  \<comment> \<open>the envelope built by the \<open>catch\<close> block of the line handler\<close>
  "unknown_failure m = failure (Some (JStr ''unknown'')) ParseError m"

definition process :: "'db env \<Rightarrow> string + json \<Rightarrow> 'db server \<Rightarrow> McpResponse \<times> 'db server" where
  \<comment> \<open>the line handler from the point where \<open>JSON.parse\<close> has thrown or returned\<close>
  "process env parsed st =
     (case parsed of
        Inl m \<Rightarrow> (unknown_failure m, st)
      | Inr request \<Rightarrow>
         (case handleRequest env request st of
            (Inl e, st') \<Rightarrow> (unknown_failure (message e), st')
          | (Inr response, st') \<Rightarrow> (response, st')))"

definition on_line :: "'db env \<Rightarrow> string \<Rightarrow> 'db server \<Rightarrow> McpResponse \<times> 'db server" where
  "on_line env line st = process env (json_parse env line) st"

fun serve :: "('db env \<times> (string + json)) list \<Rightarrow> 'db server
    \<Rightarrow> McpResponse list \<times> 'db server" where
  \<comment> \<open>messages handled one after the other, each with the collaborators as they are when
     it arrives\<close>
  "serve [] st = ([], st)"
| "serve ((env, m) # ms) st =
     (let r = process env m st; rs = serve ms (snd r) in (fst r # fst rs, snd rs))"

definition tool_call :: "json \<Rightarrow> string \<Rightarrow> json \<Rightarrow> json" where
  \<comment> \<open>the message \<open>{jsonrpc, id, method: "mcp.callTool", params: {name, arguments}}\<close>\<close>
  "tool_call i name arguments =
     JObj [(''jsonrpc'', JStr ''2.0''), (''id'', i), (''method'', JStr ''mcp.callTool''),
           (''params'', JObj [(''name'', JStr name), (''arguments'', arguments)])]"


definition call_envelope :: "json \<Rightarrow> string \<Rightarrow> json \<Rightarrow> McpRequest" where
  "call_envelope i name a = as_request (tool_call i name a)"

section \<open>Notions used in the statements\<close>

definition append_message :: "'db env \<Rightarrow> json \<times> json \<Rightarrow> 'db env \<times> (string + json)" where
  \<comment> \<open>an \<open>append_insight\<close> call, given by its identifier and its argument object\<close>
  "append_message env c = (case c of (i, a) \<Rightarrow> (env, Inr (tool_call i ''append_insight'' a)))"

definition confirmation :: "nat \<times> json \<times> json \<Rightarrow> McpResponse" where
  \<comment> \<open>the answer to the call \<open>(i, a)\<close> when it is given the identifier \<open>n\<close>\<close>
  "confirmation c = (case c of (n, i, a) \<Rightarrow>
     tool_result (Some i) (''Insight #'' @ show_nat n @ '' added to memo''))"

definition numbered :: "'db server \<Rightarrow> bool" where
  \<comment> \<open>the log holds the identifiers 1 to \<open>insightCounter\<close>, in this order\<close>
  "numbered st = (map insight_id (insights st) = [1..<Suc (insightCounter st)])"

definition answers :: "McpRequest \<Rightarrow> thrown + McpResponse \<Rightarrow> bool" where
  "answers request r =
     (case r of Inl e \<Rightarrow> True | Inr response \<Rightarrow> resp_id response = req_id request)"

definition sound :: "McpRequest \<Rightarrow> 'db server \<Rightarrow> (thrown + McpResponse) \<times> 'db server \<Rightarrow> bool" where
  "sound request st out = (answers request (fst out) \<and> (numbered st \<longrightarrow> numbered (snd out)))"

definition three_calls :: "(json \<times> json) list" where
  "three_calls = [(JNum 1, JObj [(''insight'', JStr ''first'')]),
                  (JNum 2, JObj [(''insight'', JStr [])]),
                  (JNum 3, JObj [])]"

section \<open>A stub gateway\<close>

text \<open>
  Collaborators for running the handlers on concrete messages. The database is a counter
  of the gateway's invocations; the parser knows three lines.
\<close>

definition list_tools_line :: string where
  "list_tools_line = ''{'' @ [CHR 0x22] @ ''id'' @ [CHR 0x22] @ '':7,'' @ [CHR 0x22] @ ''method''
     @ [CHR 0x22] @ '':'' @ [CHR 0x22] @ ''mcp.listTools'' @ [CHR 0x22] @ ''}''"

definition stub_parse :: "string \<Rightarrow> string + json" where
  "stub_parse line =
     (if line = ''null'' then Inr JNull
      else if line = list_tools_line
        then Inr (JObj [(''id'', JNum 7), (''method'', JStr ''mcp.listTools'')])
      else Inl ''Unexpected token'')"

definition stub_env :: "nat env" where
  "stub_env = \<lparr>database = ''mcp_demo'',
     pool_query = (\<lambda>sql vals n. (Inr (JArr []), Suc n)),
     json_parse = stub_parse, json_stringify = to_string,
     clock = ''2024-01-01T00:00:00.000Z''\<rparr>"

definition failing_env :: "nat env" where
  "failing_env = stub_env\<lparr>pool_query := (\<lambda>sql vals n. (Inl ''connection lost'', Suc n))\<rparr>"

section \<open>Properties of the scanner\<close>

lemma in_string_char:
  "inString s \<Longrightarrow> \<not> inComment s \<Longrightarrow> [c] \<noteq> stringDelimiter s \<Longrightarrow>
   scan (c # cs) s = scan cs (s\<lparr>currentStatement := currentStatement s @ [c]\<rparr>)"
  by (simp add: scan_char_def handle_literal_def append_char_def Let_def)

lemma open_quote:
  "\<not> inString s \<Longrightarrow> \<not> inComment s \<Longrightarrow> is_quote q \<Longrightarrow>
   scan (q # cs) s = scan cs (s\<lparr>inString := True, stringDelimiter := [q],
                                 currentStatement := currentStatement s @ [q]\<rparr>)"
  by (auto simp: scan_char_def handle_literal_def append_char_def Let_def is_quote_def)

lemma close_quote:
  "inString s \<Longrightarrow> \<not> inComment s \<Longrightarrow> is_quote q \<Longrightarrow> stringDelimiter s = [q] \<Longrightarrow>
   scan (q # cs) s = scan cs (s\<lparr>inString := False,
                                 currentStatement := currentStatement s @ [q]\<rparr>)"
  by (auto simp: scan_char_def handle_literal_def append_char_def Let_def is_quote_def)

lemma open_block:
  "\<not> inString s \<Longrightarrow> \<not> inComment s \<Longrightarrow>
   scan (CHR ''/'' # CHR ''*'' # cs) s = scan cs (s\<lparr>inComment := True\<rparr>)"
  by (simp add: scan_char_def handle_literal_def is_quote_def Let_def)

lemma close_block:
  "\<not> inString s \<Longrightarrow> inComment s \<Longrightarrow>
   scan (CHR ''*'' # CHR ''/'' # cs) s = scan cs (s\<lparr>inComment := False\<rparr>)"
  by (simp add: scan_char_def handle_literal_def is_quote_def Let_def)

lemma in_block_char:
  "\<not> inString s \<Longrightarrow> inComment s \<Longrightarrow> \<not> (c = CHR ''*'' \<and> take 1 cs = ''/'') \<Longrightarrow>
   scan (c # cs) s = scan cs s"
  by (auto simp: scan_char_def handle_literal_def append_char_def Let_def)

lemma line_comment:
  "\<not> inString s \<Longrightarrow> \<not> inComment s \<Longrightarrow>
   scan (CHR ''-'' # CHR ''-'' # cs) s = scan (drop 1 (dropWhile (\<lambda>x. x \<noteq> CHR 0x0A) cs)) s"
  by (simp add: scan_char_def handle_literal_def is_quote_def Let_def)

declare scan.simps(2) [simp del]

lemma in_string_body:
  "inString s \<Longrightarrow> \<not> inComment s \<Longrightarrow> stringDelimiter s = [q] \<Longrightarrow> q \<notin> set body \<Longrightarrow>
   scan (body @ rest) s = scan rest (s\<lparr>currentStatement := currentStatement s @ body\<rparr>)"
proof (induction body arbitrary: s)
  case Nil
  then show ?case by simp
next
  case (Cons c body)
  have "scan ((c # body) @ rest) s
        = scan (body @ rest) (s\<lparr>currentStatement := currentStatement s @ [c]\<rparr>)"
    using Cons.prems in_string_char [of s c "body @ rest"] by auto
  also have "\<dots> = scan rest (s\<lparr>currentStatement := currentStatement s @ [c]\<rparr>
                       \<lparr>currentStatement := (currentStatement s @ [c]) @ body\<rparr>)"
    using Cons.IH [of "s\<lparr>currentStatement := currentStatement s @ [c]\<rparr>"] Cons.prems
    by simp
  finally show ?case by simp
qed

lemma in_block_body:
  "\<not> inString s \<Longrightarrow> inComment s \<Longrightarrow> \<not> closes body \<Longrightarrow>
   scan (body @ CHR ''*'' # CHR ''/'' # rest) s = scan rest (s\<lparr>inComment := False\<rparr>)"
proof (induction body rule: closes.induct)
  case 1
  then show ?case using close_block by simp
next
  case (2 a)
  then have "scan ([a] @ CHR ''*'' # CHR ''/'' # rest) s = scan (CHR ''*'' # CHR ''/'' # rest) s"
    using in_block_char [of s a "CHR ''*'' # CHR ''/'' # rest"] by auto
  then show ?case using 2 close_block by simp
next
  case (3 a b cs)
  then have "scan ((a # b # cs) @ CHR ''*'' # CHR ''/'' # rest) s
             = scan ((b # cs) @ CHR ''*'' # CHR ''/'' # rest) s"
    using in_block_char [of s a "(b # cs) @ CHR ''*'' # CHR ''/'' # rest"] by auto
  then show ?case using 3 by simp
qed

lemma in_block_open:
  "\<not> inString s \<Longrightarrow> inComment s \<Longrightarrow> \<not> closes body \<Longrightarrow> scan body s = s"
proof (induction body rule: closes.induct)
  case 1
  then show ?case by simp
next
  case (2 a)
  then have "scan [a] s = scan [] s"
    using in_block_char [of s a "[]"] by auto
  then show ?case by simp
next
  case (3 a b cs)
  then have "scan (a # b # cs) s = scan (b # cs) s"
    using in_block_char [of s a "b # cs"] by auto
  then show ?case using 3 by simp
qed

lemma dropWhile_upto:
  "x \<notin> set body \<Longrightarrow> dropWhile (\<lambda>c. c \<noteq> x) (body @ x # rest) = x # rest"
  by (induction body) auto

lemma dropWhile_all:
  "x \<notin> set body \<Longrightarrow> dropWhile (\<lambda>c. c \<noteq> x) body = []"
  by (induction body) auto

text \<open>
  Claim C5, as the code has it. From any point where the scanner is outside literals and
  comments, a literal opened by one of the three quote characters and closed by the next
  occurrence of the same character is appended to the current statement character for
  character, whatever it contains, and the list of finished statements stays as it was;
  a literal that is never closed takes the rest of the script. The terminating \<open>;\<close> is
  appended before the statement is closed, so the script \<open>SELECT ';' ;\<close> gives the one
  statement \<open>SELECT ';' ;\<close>.
\<close>

theorem literal_appended_verbatim:
  assumes "\<not> inString s" and "\<not> inComment s" and "is_quote q" and "q \<notin> set body"
  shows "scan (q # body @ q # rest) s
           = scan rest (s\<lparr>stringDelimiter := [q], inString := False,
                          currentStatement := currentStatement s @ q # body @ [q]\<rparr>)
         \<and> scan (q # body) s
           = s\<lparr>inString := True, stringDelimiter := [q],
                currentStatement := currentStatement s @ q # body\<rparr>
         \<and> tokenize (''SELECT '' @ [CHR 0x27, CHR '';'', CHR 0x27] @ '' ;'')
           = [''SELECT '' @ [CHR 0x27, CHR '';'', CHR 0x27] @ '' ;'']"
proof -
  let ?s1 = "s\<lparr>inString := True, stringDelimiter := [q],
                currentStatement := currentStatement s @ [q]\<rparr>"
  let ?s2 = "?s1\<lparr>currentStatement := currentStatement ?s1 @ body\<rparr>"
  have a: "scan (q # body @ q # rest) s = scan (body @ q # rest) ?s1"
    using assms open_quote by simp
  have b: "scan (body @ q # rest) ?s1 = scan (q # rest) ?s2"
    using assms in_string_body [of ?s1 q body "q # rest"] by simp
  have c: "scan (q # rest) ?s2
           = scan rest (s\<lparr>stringDelimiter := [q], inString := False,
                          currentStatement := currentStatement s @ q # body @ [q]\<rparr>)"
    using assms close_quote [of ?s2 q rest] by simp
  have d: "scan (q # body) s = scan (body @ []) ?s1"
    using assms open_quote by simp
  have e: "scan (body @ []) ?s1 = scan [] ?s2"
    using assms in_string_body [of ?s1 q body "[]"] by simp
  have f: "tokenize (''SELECT '' @ [CHR 0x27, CHR '';'', CHR 0x27] @ '' ;'')
           = [''SELECT '' @ [CHR 0x27, CHR '';'', CHR 0x27] @ '' ;'']"
    by code_simp
  show ?thesis using a b c d e f by simp
qed

theorem literal_appended_verbatim_witness:
  "scan ([CHR 0x27, CHR '';'', CHR 0x27] @ '' ;'') scanner_init
     = scan '' ;'' (scanner_init\<lparr>stringDelimiter := [CHR 0x27], inString := False,
                                  currentStatement := [CHR 0x27, CHR '';'', CHR 0x27]\<rparr>)"
  using literal_appended_verbatim [of scanner_init "CHR 0x27" "'';''" "'' ;''"]
  by (simp add: scanner_init_def is_quote_def)

theorem literal_example_counterexample:
  "tokenize (''SELECT '' @ [CHR 0x27, CHR '';'', CHR 0x27] @ '' ;'')
     \<noteq> [''SELECT '' @ [CHR 0x27, CHR '';'', CHR 0x27]]"
  by code_simp

text \<open>
  Claim C6, as the code has it. Outside literals and comments, the characters of a line
  comment (started by \<open>--\<close>, ending at end-of-line or at the end of the script) and of a
  block comment (from \<open>/*\<close> to the next \<open>*/\<close>, or to the end of the script) leave the
  scanner's finished statements and current statement as they were: none of them is
  appended to any statement and none of them, a \<open>;\<close> included, closes a statement. Each
  of the scripts \<open>-- comment\<newline>SELECT 1;\<close> and \<open>/* a; b */ SELECT 1;\<close> gives the one
  statement \<open>SELECT 1;\<close>.
\<close>

theorem comments_discarded:
  assumes "\<not> inString s" and "\<not> inComment s"
  shows "(CHR 0x0A \<notin> set body \<longrightarrow>
            scan (''--'' @ body @ CHR 0x0A # rest) s = scan rest s
            \<and> scan (''--'' @ body) s = s)
         \<and> (\<not> closes body \<longrightarrow>
            scan (''/*'' @ body @ ''*/'' @ rest) s = scan rest s
            \<and> scan (''/*'' @ body) s = s\<lparr>inComment := True\<rparr>)
         \<and> tokenize (''-- comment'' @ [CHR 0x0A] @ ''SELECT 1;'') = [''SELECT 1;'']
         \<and> tokenize ''/* a; b */ SELECT 1;'' = [''SELECT 1;'']"
proof -
  have line: "scan (''--'' @ body @ CHR 0x0A # rest) s = scan rest s \<and> scan (''--'' @ body) s = s"
    if "CHR 0x0A \<notin> set body"
  proof -
    have d1: "dropWhile (\<lambda>x. x \<noteq> CHR 0x0A) (body @ CHR 0x0A # rest) = CHR 0x0A # rest"
      using that by (rule dropWhile_upto)
    have d2: "dropWhile (\<lambda>x. x \<noteq> CHR 0x0A) body = []"
      using that by (rule dropWhile_all)
    show ?thesis
      using assms line_comment [of s "body @ CHR 0x0A # rest"] line_comment [of s body]
      by (simp add: d1 d2)
  qed
  have block: "scan (''/*'' @ body @ ''*/'' @ rest) s = scan rest s
               \<and> scan (''/*'' @ body) s = s\<lparr>inComment := True\<rparr>"
    if "\<not> closes body"
  proof -
    have "scan (body @ CHR ''*'' # CHR ''/'' # rest) (s\<lparr>inComment := True\<rparr>)
          = scan rest (s\<lparr>inComment := True\<rparr>\<lparr>inComment := False\<rparr>)"
      using assms that in_block_body [of "s\<lparr>inComment := True\<rparr>" body rest] by simp
    moreover have "s\<lparr>inComment := True\<rparr>\<lparr>inComment := False\<rparr> = s"
      using assms by simp
    moreover have "scan body (s\<lparr>inComment := True\<rparr>) = s\<lparr>inComment := True\<rparr>"
      using assms that in_block_open [of "s\<lparr>inComment := True\<rparr>" body] by simp
    ultimately show ?thesis
      using assms open_block [of s] by simp
  qed
  have e1: "tokenize (''-- comment'' @ [CHR 0x0A] @ ''SELECT 1;'') = [''SELECT 1;'']"
    by code_simp
  have e2: "tokenize ''/* a; b */ SELECT 1;'' = [''SELECT 1;'']"
    by code_simp
  show ?thesis using line block e1 e2 by blast
qed

theorem comments_discarded_witness:
  "scan (''--'' @ '' comment'' @ CHR 0x0A # ''SELECT 1;'') scanner_init
     = scan ''SELECT 1;'' scanner_init
   \<and> scan (''/*'' @ '' a; b '' @ ''*/'' @ '' SELECT 1;'') scanner_init
     = scan '' SELECT 1;'' scanner_init"
  using comments_discarded [of scanner_init "'' comment''" "''SELECT 1;''"]
        comments_discarded [of scanner_init "'' a; b ''" "'' SELECT 1;''"]
  by (simp add: scanner_init_def)

theorem comment_examples_counterexample:
  "tokenize (''-- comment'' @ [CHR 0x0A] @ ''SELECT 1;'') \<noteq> [''SELECT 1'']
   \<and> tokenize ''/* a; b */ SELECT 1;'' \<noteq> [''SELECT 1'']"
  by code_simp


section \<open>Properties of the migration filter\<close>

lemma execute_single:
  "execute_statements env [statement] st =
     (if skip_statement statement then st else snd (run_query env statement [] st))"
  by simp

text \<open>
  Claim C7. The filter tests \<open>includes('use ')\<close>, not a prefix: the one-statement script
  \<open>INSERT INTO warehouse VALUES (1);\<close> neither contains \<open>create database\<close> nor begins with
  \<open>use \<close>, yet the migration hands nothing to the gateway, because \<open>warehouse \<close> contains
  \<open>use \<close>. The same statement on a table named \<open>store\<close> is submitted.
\<close>

theorem statement_containing_use_is_skipped:
  "tokenize ''INSERT INTO warehouse VALUES (1);'' = [''INSERT INTO warehouse VALUES (1);'']
   \<and> \<not> str_includes (toLowerCase ''INSERT INTO warehouse VALUES (1);'') ''create database''
   \<and> \<not> startsWith (toLowerCase ''INSERT INTO warehouse VALUES (1);'') ''use ''
   \<and> runMigrations env (Some ''INSERT INTO warehouse VALUES (1);'') st = st
   \<and> queries (runMigrations env (Some ''INSERT INTO store VALUES (1);'') st)
       = queries st @ [(''INSERT INTO store VALUES (1);'', [])]"
proof -
  have t1: "tokenize ''INSERT INTO warehouse VALUES (1);'' = [''INSERT INTO warehouse VALUES (1);'']"
    by code_simp
  have t2: "tokenize ''INSERT INTO store VALUES (1);'' = [''INSERT INTO store VALUES (1);'']"
    by code_simp
  have c: "\<not> str_includes (toLowerCase ''INSERT INTO warehouse VALUES (1);'') ''create database''"
    by code_simp
  have u: "\<not> startsWith (toLowerCase ''INSERT INTO warehouse VALUES (1);'') ''use ''"
    by code_simp
  have k1: "skip_statement ''INSERT INTO warehouse VALUES (1);''"
    by code_simp
  have k2: "\<not> skip_statement ''INSERT INTO store VALUES (1);''"
    by code_simp
  have r1: "runMigrations env (Some ''INSERT INTO warehouse VALUES (1);'') st = st"
    unfolding runMigrations_def option.case t1 execute_single using k1 by simp
  have r2: "queries (runMigrations env (Some ''INSERT INTO store VALUES (1);'') st)
            = queries st @ [(''INSERT INTO store VALUES (1);'', [])]"
    unfolding runMigrations_def option.case t2 execute_single using k2
    by (simp add: run_query_def Let_def)
  show ?thesis using t1 c u r1 r2 by simp
qed

theorem statement_containing_use_is_skipped_witness:
  "runMigrations stub_env (Some ''INSERT INTO warehouse VALUES (1);'') (server_init 0)
     = server_init 0"
  using statement_containing_use_is_skipped [of stub_env "server_init 0"] by simp

section \<open>Properties of the validator\<close>

lemma validate_code:
  "validateSqlQuery v ty = Inr () \<or> (\<exists>m. validateSqlQuery v ty = Inl (McpError InvalidParams m))"
  by (cases ty) (simp_all add: validateSqlQuery_def Let_def)

lemma validate_string:
  "(validateSqlQuery (Some (JStr q)) ty = Inr ()) = intent_rule ty (toLowerCase (trim q))"
proof (cases "q = []")
  case True
  then show ?thesis
    by (cases ty) (simp_all add: validateSqlQuery_def trim_def toLowerCase_def startsWith_def)
next
  case False
  then show ?thesis
    by (cases ty) (auto simp: validateSqlQuery_def Let_def)
qed

lemma validator_examples:
  "validateSqlQuery (Some (JStr ''SELECT * FROM t'')) Select = Inr ()"
  "validateSqlQuery (Some (JStr ''select * from t; drop table t'')) Select \<noteq> Inr ()"
  "validateSqlQuery (Some (JStr ''UPDATE t SET x=1'')) Write = Inr ()"
  "validateSqlQuery (Some (JStr ''SELECT 1'')) Write \<noteq> Inr ()"
  "validateSqlQuery (Some (JStr ''CREATE TABLE t (id INT)'')) CreateTable = Inr ()"
  "validateSqlQuery (Some (JStr ''ALTER TABLE t ADD c INT'')) CreateTable \<noteq> Inr ()"
  by code_simp+

text \<open>
  Claim C1. For every query string and every intent, the validator returns normally
  exactly when the trimmed, lower-cased query satisfies the row of the intent table
  (\<open>intent_rule\<close>); and whatever value it is given as the query, string or not, it either
  returns normally or throws an \<open>McpError\<close> whose code is \<open>InvalidParams\<close>.
\<close>

theorem validator_follows_intent_table:
  "(validateSqlQuery (Some (JStr q)) intent = Inr ())
     = intent_rule intent (toLowerCase (trim q))
   \<and> (validateSqlQuery v intent = Inr ()
      \<or> (\<exists>m. validateSqlQuery v intent = Inl (McpError InvalidParams m)))"
  using validate_string [of q intent] validate_code [of v intent] by simp

theorem validator_follows_intent_table_witness:
  "validateSqlQuery (Some (JStr ''SELECT * FROM t'')) Select = Inr ()
   \<and> validateSqlQuery (Some (JStr ''SELECT 1'')) Write \<noteq> Inr ()"
proof -
  have a: "intent_rule Select (toLowerCase (trim ''SELECT * FROM t''))"
    by code_simp
  have b: "\<not> intent_rule Write (toLowerCase (trim ''SELECT 1''))"
    by code_simp
  show ?thesis
    using a b validator_follows_intent_table [of "''SELECT * FROM t''" Select None]
      validator_follows_intent_table [of "''SELECT 1''" Write None]
    by simp
qed


section \<open>Properties of the dispatcher\<close>

declare show_nat.simps [simp del]

lemma call_envelope_fields:
  "req_id (call_envelope i name a) = Some i"
  "req_method (call_envelope i name a) = Some (JStr ''mcp.callTool'')"
  "req_params (call_envelope i name a) = Some (JObj [(''name'', JStr name), (''arguments'', a)])"
  by (simp_all add: call_envelope_def as_request_def tool_call_def)

lemma handleRequest_envelope:
  "request \<noteq> JNull \<Longrightarrow>
   handleRequest env request st =
     (case method_switch env (as_request request) st of
        (Inl (McpError c m), st') \<Rightarrow> (Inr (failure (req_id (as_request request)) c m), st')
      | (Inl (JsError m), st') \<Rightarrow>
          (Inr (failure (req_id (as_request request)) InternalError m), st')
      | (Inr response, st') \<Rightarrow> (Inr response, st'))"
  by (simp add: handleRequest_def Let_def)

lemma method_switch_call:
  "req_method r = Some (JStr ''mcp.callTool'') \<Longrightarrow>
   method_switch env r st = handleToolCall env r st"
  by (simp add: method_switch_def)

lemma process_call:
  "process env (Inr (tool_call i name a)) st =
     (case tool_switch env (call_envelope i name a) st of
        (Inl (McpError c m), st') \<Rightarrow> (failure (Some i) c m, st')
      | (Inl (JsError m), st') \<Rightarrow> (tool_failure (Some i) m, st')
      | (Inr response, st') \<Rightarrow> (response, st'))"
proof -
  have n: "tool_call i name a \<noteq> JNull" by (simp add: tool_call_def)
  obtain r st' where ts: "tool_switch env (call_envelope i name a) st = (r, st')"
    by fastforce
  have "method_switch env (call_envelope i name a) st
        = handleToolCall env (call_envelope i name a) st"
    by (simp add: method_switch_call call_envelope_fields)
  then have "handleRequest env (tool_call i name a) st =
     (case r of Inl (McpError c m) \<Rightarrow> (Inr (failure (Some i) c m), st')
              | Inl (JsError m) \<Rightarrow> (Inr (tool_failure (Some i) m), st')
              | Inr response \<Rightarrow> (Inr response, st'))"
    using ts
    by (simp add: handleRequest_envelope [OF n] call_envelope_def [symmetric]
          call_envelope_fields handleToolCall_def split: sum.splits thrown.splits)
  then show ?thesis
    using ts by (simp add: process_def split: sum.splits thrown.splits)
qed

lemma switch_call:
  "tool_switch env (call_envelope i name a) st =
     (if name = ''read_query'' then read_query env (call_envelope i name a) (Some a) st
      else if name = ''write_query'' then write_query env (call_envelope i name a) (Some a) st
      else if name = ''create_table'' then create_table env (call_envelope i name a) (Some a) st
      else if name = ''list_tables'' then list_tables env (call_envelope i name a) st
      else if name = ''describe_table'' then
        describe_table env (call_envelope i name a) (Some a) st
      else if name = ''append_insight'' then
        append_insight env (call_envelope i name a) (Some a) st
      else (Inl (McpError MethodNotFound (''Unknown tool: '' @ name)), st))"
  by (simp add: tool_switch_def call_envelope_fields get_prop_def template_def)

lemma process_append:
  assumes "a \<noteq> JNull"
  shows "process env (Inr (tool_call i ''append_insight'' a)) st =
     (tool_result (Some i)
        (''Insight #'' @ show_nat (Suc (insightCounter st)) @ '' added to memo''),
      st\<lparr>insights := insights st @
             [\<lparr>insight_id = Suc (insightCounter st), content = field a ''insight'',
               timestamp = clock env\<rparr>],
         insightCounter := Suc (insightCounter st)\<rparr>)"
  using assms
  by (cases a)
     (simp_all add: process_call switch_call append_insight_def
        destructure_def Let_def call_envelope_fields)

lemma process_rejected_read:
  assumes "validateSqlQuery (map_of kvs ''query'') Select = Inl e"
  shows "process env (Inr (tool_call i ''read_query'' (JObj kvs))) st
         = (failure (Some i) InvalidParams (message e), st)"
proof -
  obtain m where e: "e = McpError InvalidParams m"
    using assms validate_code [of "map_of kvs ''query''" Select] by auto
  show ?thesis
    using assms
    by (simp add: process_call switch_call read_query_def destructure_def e)
qed

lemma process_list_tables_failure:
  assumes "pool_query env list_tables_sql [Some (JStr (database env))] (db st) = (Inl msg, d)"
  shows "process env (Inr (tool_call i ''list_tables'' a)) st
         = (tool_failure (Some i) msg,
            st\<lparr>db := d,
               queries := queries st @ [(list_tables_sql, [Some (JStr (database env))])]\<rparr>)"
  using assms
  by (simp add: process_call switch_call list_tables_def run_query_def
        call_envelope_fields Let_def)

lemma process_describe_table_failure:
  assumes "pool_query env describe_table_sql [Some (JStr (database env)), field a ''table_name'']
             (db st) = (Inl msg, d)" and "a \<noteq> JNull"
  shows "process env (Inr (tool_call i ''describe_table'' a)) st
         = (tool_failure (Some i) msg,
            st\<lparr>db := d,
               queries := queries st @
                 [(describe_table_sql, [Some (JStr (database env)), field a ''table_name''])]\<rparr>)"
  using assms
  by (cases a)
     (simp_all add: process_call switch_call describe_table_def run_query_def
        destructure_def call_envelope_fields Let_def)

lemma process_read_query_failure:
  assumes "validateSqlQuery (Some (JStr q)) Select = Inr ()"
      and "pool_query env q [] (db st) = (Inl msg, d)"
  shows "process env (Inr (tool_call i ''read_query'' (JObj [(''query'', JStr q)]))) st
         = (failure (Some i) InternalError (''Database error: '' @ msg),
            st\<lparr>db := d, queries := queries st @ [(q, [])]\<rparr>)"
  using assms
  by (simp add: process_call switch_call read_query_def run_query_def
        destructure_def database_error_def call_envelope_fields Let_def)

lemma process_describe_table_unchecked:
  "resp_error (fst (process env (Inr (tool_call i ''describe_table'' (JObj kvs))) st)) = None
   \<and> queries (snd (process env (Inr (tool_call i ''describe_table'' (JObj kvs))) st))
     = queries st @ [(describe_table_sql, [Some (JStr (database env)), map_of kvs ''table_name''])]"
  by (cases "fst (pool_query env describe_table_sql
                [Some (JStr (database env)), map_of kvs ''table_name''] (db st))")
     (simp_all add: process_call switch_call describe_table_def run_query_def
        destructure_def call_envelope_fields Let_def tool_failure_def tool_result_def)

text \<open>
  Claim C2. A \<open>read_query\<close> call whose \<open>query\<close> argument the validator rejects for read
  intent is answered with an error envelope of code \<open>InvalidParams\<close> that carries the
  validator's message and the request's identifier, and the server is left exactly as it
  was: the database and the log of statements handed to the gateway are unchanged, so
  the gateway was not invoked.
\<close>

theorem rejected_read_query_skips_gateway:
  assumes "validateSqlQuery (map_of kvs ''query'') Select = Inl e"
  shows "process env (Inr (tool_call i ''read_query'' (JObj kvs))) st
           = (failure (Some i) InvalidParams (message e), st)
         \<and> db (snd (process env (Inr (tool_call i ''read_query'' (JObj kvs))) st)) = db st
         \<and> queries (snd (process env (Inr (tool_call i ''read_query'' (JObj kvs))) st))
           = queries st"
  using process_rejected_read [OF assms, of env i st] by simp

theorem rejected_read_query_skips_gateway_witness:
  "process stub_env (Inr (tool_call (JNum 1) ''read_query''
       (JObj [(''query'', JStr ''DELETE FROM t'')]))) (server_init 0)
     = (failure (Some (JNum 1)) InvalidParams
          ''Only SELECT queries are allowed with read_query'', server_init 0)"
proof -
  have v: "validateSqlQuery (map_of [(''query'', JStr ''DELETE FROM t'')] ''query'') Select
           = Inl (McpError InvalidParams ''Only SELECT queries are allowed with read_query'')"
    by code_simp
  show ?thesis
    using rejected_read_query_skips_gateway [OF v, of stub_env "JNum 1" "server_init 0"]
    by simp
qed

text \<open>
  Claim C3. The claim holds for \<open>read_query\<close>, \<open>write_query\<close> and \<open>create_table\<close>, which
  wrap the gateway call in their own \<open>try\<close>/\<open>catch\<close> (\<open>process_read_query_failure\<close>).
  \<open>list_tables\<close> and \<open>describe_table\<close> have no such wrapper: a rejection by the gateway
  reaches the outer \<open>catch\<close> of \<open>handleToolCall\<close>, which answers with a result envelope
  (\<open>isError: true\<close>, text \<open>Error: \<dots>\<close>) and no error descriptor. In both cases the
  gateway is invoked once.
\<close>

theorem schema_tool_gateway_failure_is_result:
  "(pool_query env list_tables_sql [Some (JStr (database env))] (db st) = (Inl msg, d) \<longrightarrow>
      process env (Inr (tool_call i ''list_tables'' a)) st
        = (tool_failure (Some i) msg,
           st\<lparr>db := d,
              queries := queries st @ [(list_tables_sql, [Some (JStr (database env))])]\<rparr>))
   \<and> (pool_query env describe_table_sql [Some (JStr (database env)), map_of kvs ''table_name'']
         (db st) = (Inl msg, d) \<longrightarrow>
      process env (Inr (tool_call i ''describe_table'' (JObj kvs))) st
        = (tool_failure (Some i) msg,
           st\<lparr>db := d,
              queries := queries st @
                [(describe_table_sql,
                  [Some (JStr (database env)), map_of kvs ''table_name''])]\<rparr>))
   \<and> resp_error (tool_failure (Some i) msg) = None
   \<and> resp_result (tool_failure (Some i) msg)
       = Some (JObj [(''content'', text_content (''Error: '' @ msg)), (''isError'', JBool True)])"
  using process_list_tables_failure [of env st msg d i a]
    process_describe_table_failure [of env "JObj kvs" st msg d i]
  by (simp add: tool_failure_def)

theorem schema_tool_gateway_failure_is_result_witness:
  "process failing_env (Inr (tool_call (JNum 1) ''list_tables'' (JObj []))) (server_init 0)
     = (tool_failure (Some (JNum 1)) ''connection lost'',
        \<lparr>insights = [], insightCounter = 0, db = 1,
         queries = [(list_tables_sql, [Some (JStr ''mcp_demo'')])]\<rparr>)
   \<and> resp_error (tool_failure (Some (JNum 1)) ''connection lost'') = None"
  using schema_tool_gateway_failure_is_result
          [of failing_env "server_init 0" "''connection lost''" 1 "JNum 1" "JObj []" "[]"]
  by (simp add: failing_env_def stub_env_def server_init_def)

text \<open>
  Claim C4. The claim holds for the three query tools, whose handlers check the
  \<open>arguments\<close> object and pass \<open>query\<close> to the validator. \<open>append_insight\<close> and
  \<open>describe_table\<close> make no such check, although their descriptors in \<open>tools\<close> list the
  argument as required. Called with the empty argument object, \<open>append_insight\<close> stores an
  insight whose content is \<open>undefined\<close> and confirms it, and \<open>describe_table\<close> hands the
  catalog query to the gateway with \<open>undefined\<close> as the table name and answers with no
  error descriptor.
\<close>

theorem missing_argument_not_rejected:
  "process env (Inr (tool_call i ''append_insight'' (JObj []))) st
     = (tool_result (Some i)
          (''Insight #'' @ show_nat (Suc (insightCounter st)) @ '' added to memo''),
        st\<lparr>insights := insights st @
               [\<lparr>insight_id = Suc (insightCounter st), content = None,
                 timestamp = clock env\<rparr>],
           insightCounter := Suc (insightCounter st)\<rparr>)
   \<and> resp_error (fst (process env (Inr (tool_call i ''append_insight'' (JObj []))) st)) = None
   \<and> resp_error (fst (process env (Inr (tool_call i ''describe_table'' (JObj []))) st)) = None
   \<and> queries (snd (process env (Inr (tool_call i ''describe_table'' (JObj []))) st))
       = queries st @ [(describe_table_sql, [Some (JStr (database env)), None])]"
  using process_append [of "JObj []" env i st]
    process_describe_table_unchecked [of env i "[]" st]
  by (simp add: tool_result_def)

theorem missing_argument_not_rejected_witness:
  "resp_error (fst (process stub_env (Inr (tool_call (JNum 1) ''append_insight'' (JObj [])))
       (server_init 0))) = None
   \<and> queries (snd (process stub_env (Inr (tool_call (JNum 1) ''describe_table'' (JObj [])))
       (server_init 0)))
     = [(describe_table_sql, [Some (JStr ''mcp_demo''), None])]"
proof -
  have d: "database stub_env = ''mcp_demo''"
    by (simp add: stub_env_def)
  have q: "queries (server_init (0::nat)) = []"
    by (simp add: server_init_def)
  note h = missing_argument_not_rejected [of stub_env "JNum 1" "server_init 0"]
  have a: "resp_error (fst (process stub_env
             (Inr (tool_call (JNum 1) ''append_insight'' (JObj []))) (server_init 0))) = None"
    using h by blast
  have b: "queries (snd (process stub_env
             (Inr (tool_call (JNum 1) ''describe_table'' (JObj []))) (server_init 0)))
           = queries (server_init (0::nat))
             @ [(describe_table_sql, [Some (JStr (database stub_env)), None])]"
    using h by blast
  show ?thesis
    using a b by (simp add: d q)
qed




section \<open>Properties of the router\<close>

lemma run_queryD:
  "run_query env sql vals st = (r, st') \<Longrightarrow>
     insights st' = insights st \<and> insightCounter st' = insightCounter st"
  by (auto simp: run_query_def Let_def)

lemma sound_unchanged:
  "answers request r \<Longrightarrow> insights st' = insights st \<Longrightarrow>
   insightCounter st' = insightCounter st \<Longrightarrow> sound request st (r, st')"
  by (simp add: sound_def numbered_def)

lemma read_query_sound: "sound request st (read_query env request arguments st)"
  by (auto simp: read_query_def tool_result_def answers_def intro!: sound_unchanged
           split: sum.splits prod.splits dest: run_queryD)

lemma write_query_sound: "sound request st (write_query env request arguments st)"
  by (auto simp: write_query_def tool_result_def answers_def intro!: sound_unchanged
           split: sum.splits prod.splits dest: run_queryD)

lemma create_table_sound: "sound request st (create_table env request arguments st)"
  by (auto simp: create_table_def tool_result_def answers_def intro!: sound_unchanged
           split: sum.splits prod.splits dest: run_queryD)

lemma list_tables_sound: "sound request st (list_tables env request st)"
  by (auto simp: list_tables_def tool_result_def answers_def intro!: sound_unchanged
           split: sum.splits prod.splits json.splits dest: run_queryD)

lemma describe_table_sound: "sound request st (describe_table env request arguments st)"
  by (auto simp: describe_table_def tool_result_def answers_def intro!: sound_unchanged
           split: sum.splits prod.splits dest: run_queryD)

lemma append_insight_sound: "sound request st (append_insight env request arguments st)"
  by (auto simp: append_insight_def tool_result_def answers_def sound_def numbered_def Let_def
           split: sum.splits)

lemma tool_switch_sound: "sound request st (tool_switch env request st)"
  unfolding tool_switch_def
  by (auto simp: read_query_sound write_query_sound create_table_sound list_tables_sound
        describe_table_sound append_insight_sound answers_def
        intro!: sound_unchanged split: sum.splits)

lemma handleToolCall_sound: "sound request st (handleToolCall env request st)"
proof -
  obtain r st' where ts: "tool_switch env request st = (r, st')"
    by fastforce
  then have s: "sound request st (r, st')"
    using tool_switch_sound [of request st env] by simp
  show ?thesis
    using ts s
    by (auto simp: handleToolCall_def sound_def answers_def tool_failure_def
             split: sum.splits thrown.splits)
qed

lemma method_switch_sound: "sound request st (method_switch env request st)"
  unfolding method_switch_def
  by (auto simp: handleToolCall_sound answers_def success_def
        intro!: sound_unchanged split: sum.splits)

lemma handleRequest_answer:
  assumes "request \<noteq> JNull"
  shows "\<exists>response st'. handleRequest env request st = (Inr response, st')
           \<and> resp_id response = field request ''id''
           \<and> (numbered st \<longrightarrow> numbered st')"
proof -
  obtain r st' where ms: "method_switch env (as_request request) st = (r, st')"
    by fastforce
  then have s: "sound (as_request request) st (r, st')"
    using method_switch_sound [of "as_request request" st env] by simp
  have i: "req_id (as_request request) = field request ''id''"
    by (simp add: as_request_def)
  show ?thesis
    using assms ms s i
    by (auto simp: handleRequest_def Let_def sound_def answers_def failure_def
             split: sum.splits thrown.splits)
qed

lemma process_numbered:
  assumes n: "numbered st"
  shows "numbered (snd (process env m st))"
proof (cases m)
  case (Inl a)
  then show ?thesis using n by (simp add: process_def unknown_failure_def)
next
  case (Inr request)
  show ?thesis
  proof (cases "request = JNull")
    case True
    then show ?thesis using Inr n by (simp add: process_def handleRequest_def)
  next
    case False
    then show ?thesis
      using Inr n handleRequest_answer [OF False, of env st]
      by (auto simp: process_def)
  qed
qed

lemma process_answer:
  "request \<noteq> JNull \<Longrightarrow> resp_id (fst (process env (Inr request) st)) = field request ''id''"
  using handleRequest_answer [of request env st] by (auto simp: process_def)

lemma serve_numbered: "numbered st \<Longrightarrow> numbered (snd (serve ms st))"
proof (induction ms arbitrary: st)
  case Nil
  then show ?case by simp
next
  case (Cons em ms)
  obtain env m where em: "em = (env, m)" by (cases em)
  show ?case
    using Cons.IH [of "snd (process env m st)"] process_numbered [OF Cons.prems, of env m]
    by (simp add: em Let_def)
qed

lemma serve_appends:
  assumes "\<forall>c\<in>set calls. snd c \<noteq> JNull"
  shows "fst (serve (map (append_message env) calls) st)
           = map confirmation (enumerate (Suc (insightCounter st)) calls)
         \<and> insightCounter (snd (serve (map (append_message env) calls) st))
           = insightCounter st + length calls"
  using assms
proof (induction calls arbitrary: st)
  case Nil
  then show ?case by simp
next
  case (Cons c calls)
  obtain i a where c: "c = (i, a)" by (cases c)
  have a: "a \<noteq> JNull" using Cons.prems c by simp
  let ?st = "snd (process env (Inr (tool_call i ''append_insight'' a)) st)"
  have m: "append_message env c = (env, Inr (tool_call i ''append_insight'' a))"
    by (simp add: c append_message_def)
  have n: "insightCounter ?st = Suc (insightCounter st)"
    using process_append [OF a, of env i st] by simp
  have r: "fst (process env (Inr (tool_call i ''append_insight'' a)) st)
           = confirmation (Suc (insightCounter st), c)"
    using process_append [OF a, of env i st] by (simp add: confirmation_def c)
  have ih: "fst (serve (map (append_message env) calls) ?st)
              = map confirmation (enumerate (Suc (Suc (insightCounter st))) calls)
            \<and> insightCounter (snd (serve (map (append_message env) calls) ?st))
              = Suc (insightCounter st) + length calls"
    using Cons.IH [of ?st] Cons.prems n by simp
  show ?case
    using ih r by (simp add: m Let_def)
qed

text \<open>
  Claim C8. The server starts with an empty log and the counter at 0. When
  \<open>append_insight\<close> calls are handled one after the other, each with an argument object
  (anything but \<open>null\<close>), the n-th call is answered with the confirmation
  \<open>Insight #n added to memo\<close> and the log then holds the identifiers 1 to the number of
  calls, in this order. Whatever messages are handled, and in whatever order, the log
  holds exactly the identifiers 1 to the counter's value in increasing order, so that no
  identifier is used twice. Identifiers are natural numbers here; the source increments a
  double, which is exact below \<open>2^53\<close>.
\<close>

theorem insight_identifiers_sequential:
  assumes "\<forall>c\<in>set calls. snd c \<noteq> JNull"
  shows "fst (serve (map (append_message env) calls) (server_init d))
           = map confirmation (enumerate 1 calls)
         \<and> map insight_id (insights (snd (serve (map (append_message env) calls) (server_init d))))
           = [1..<Suc (length calls)]
         \<and> map insight_id (insights (snd (serve ms (server_init d))))
           = [1..<Suc (insightCounter (snd (serve ms (server_init d))))]"
proof -
  have z: "numbered (server_init d)"
    by (simp add: numbered_def server_init_def)
  have c: "insightCounter (server_init d) = 0"
    by (simp add: server_init_def)
  have a: "fst (serve (map (append_message env) calls) (server_init d))
             = map confirmation (enumerate 1 calls)
           \<and> insightCounter (snd (serve (map (append_message env) calls) (server_init d)))
             = length calls"
    using serve_appends [OF assms, of env "server_init d"] by (simp add: c)
  have "numbered (snd (serve (map (append_message env) calls) (server_init d)))"
    using z by (rule serve_numbered)
  then have b: "map insight_id
                  (insights (snd (serve (map (append_message env) calls) (server_init d))))
                = [1..<Suc (length calls)]"
    using a by (simp add: numbered_def)
  have "numbered (snd (serve ms (server_init d)))"
    using z by (rule serve_numbered)
  then show ?thesis
    using a b by (simp add: numbered_def)
qed

theorem insight_identifiers_sequential_witness:
  "fst (serve (map (append_message stub_env) three_calls) (server_init 0))
     = [tool_result (Some (JNum 1)) ''Insight #1 added to memo'',
        tool_result (Some (JNum 2)) ''Insight #2 added to memo'',
        tool_result (Some (JNum 3)) ''Insight #3 added to memo'']
   \<and> map insight_id (insights (snd (serve (map (append_message stub_env) three_calls)
        (server_init 0)))) = [1, 2, 3]"
proof -
  have h: "\<forall>c\<in>set three_calls. snd c \<noteq> JNull"
    by (simp add: three_calls_def)
  have e: "map confirmation (enumerate 1 three_calls)
           = [tool_result (Some (JNum 1)) ''Insight #1 added to memo'',
              tool_result (Some (JNum 2)) ''Insight #2 added to memo'',
              tool_result (Some (JNum 3)) ''Insight #3 added to memo'']"
    by code_simp
  have l: "[1..<Suc (length three_calls)] = [1, 2, 3]"
    by code_simp
  show ?thesis
    using insight_identifiers_sequential [OF h, of stub_env 0 "[]"] e l by simp
qed

text \<open>
  Claim C9. The claim holds for every line that \<open>JSON.parse\<close> rejects (identifier
  \<open>"unknown"\<close>, code \<open>ParseError\<close>, the parser's message) and for every line that parses
  to a value other than \<open>null\<close>, which is answered, whether with a result or with an
  error, under the \<open>id\<close> of the parsed value; a parsed value without an \<open>id\<close>, such as a
  number, is answered without one and with \<open>MethodNotFound\<close>. The line \<open>null\<close> is the
  case the code misses: \<open>JSON.parse\<close> accepts it, but the \<open>catch\<close> block of
  \<open>handleRequest\<close>, which turns every other failure into an envelope under \<open>request.id\<close>,
  itself throws on reading \<open>request.id\<close>, and the line is answered with identifier
  \<open>"unknown"\<close> and code \<open>ParseError\<close>.
\<close>

theorem parsed_null_answered_as_unparsable:
  "(json_parse env line = Inr JNull \<longrightarrow>
      on_line env line st
        = (failure (Some (JStr ''unknown'')) ParseError (cannot_read ''null'' ''id''), st))
   \<and> (json_parse env line = Inr (JNum n) \<longrightarrow>
      on_line env line st
        = (failure None MethodNotFound ''Unknown method: undefined'', st))
   \<and> (json_parse env line = Inl m \<longrightarrow>
      fst (on_line env line st) = failure (Some (JStr ''unknown'')) ParseError m)
   \<and> (json_parse env line = Inr request \<longrightarrow> request \<noteq> JNull \<longrightarrow>
      resp_id (fst (on_line env line st)) = field request ''id'')"
proof -
  have unparsed: "fst (process env (Inl m) st) = failure (Some (JStr ''unknown'')) ParseError m"
    by (simp add: process_def unknown_failure_def)
  have null: "process env (Inr JNull) st
                = (failure (Some (JStr ''unknown'')) ParseError (cannot_read ''null'' ''id''), st)"
    by (simp add: process_def handleRequest_def unknown_failure_def)
  have number: "process env (Inr (JNum n)) st
                = (failure None MethodNotFound ''Unknown method: undefined'', st)"
    by (simp add: process_def handleRequest_def as_request_def method_switch_def template_def
          Let_def)
  show ?thesis
    using unparsed null number process_answer [of request env st]
    by (auto simp: on_line_def)
qed

theorem parsed_null_answered_as_unparsable_witness:
  "on_line stub_env ''null'' (server_init 0)
     = (failure (Some (JStr ''unknown'')) ParseError (cannot_read ''null'' ''id''),
        server_init 0)
   \<and> resp_id (fst (on_line stub_env list_tools_line (server_init 0))) = Some (JNum 7)"
proof -
  have p1: "json_parse stub_env ''null'' = Inr JNull"
    by (simp add: stub_env_def stub_parse_def)
  have p2: "json_parse stub_env list_tools_line
            = Inr (JObj [(''id'', JNum 7), (''method'', JStr ''mcp.listTools'')])"
    by (simp add: stub_env_def stub_parse_def list_tools_line_def)
  show ?thesis
    using parsed_null_answered_as_unparsable
            [of stub_env "''null''" "server_init 0" 0 "''Unexpected token''" JNull]
          parsed_null_answered_as_unparsable
            [of stub_env list_tools_line "server_init 0" 0 "''Unexpected token''"
              "JObj [(''id'', JNum 7), (''method'', JStr ''mcp.listTools'')]"]
    by (simp add: p1 p2)
qed

end
